theory Spec2Isabelle
  imports Main
begin

section \<open>Python values used by PortScanner.py\<close>

text \<open>
  A Python \<open>str\<close> is modelled as a \<open>string\<close>; every \<open>char\<close> is read as the Unicode code
  point of the same number, so the model covers the strings over U+0000..U+00FF. Python
  \<open>int\<close> is \<open>int\<close>. The per-connection timeout is only handed on to the socket, so its
  type is left open (the type variable \<open>'t\<close>).
\<close>

abbreviation LF :: char where "LF \<equiv> CHR 0x0A"
abbreviation CR :: char where "CR \<equiv> CHR 0x0D"
abbreviation dquote :: char where "dquote \<equiv> CHR 0x22"
abbreviation backslash :: char where "backslash \<equiv> CHR 0x5C"
abbreviation e_acute :: char where "e_acute \<equiv> CHR 0xE9"

subsection \<open>str.isdigit, str.replace, str.split, str.lower\<close>

definition decimal :: "char \<Rightarrow> bool" where
  \<comment> \<open>the ASCII digits \<open>0\<close>..\<open>9\<close>\<close>
  "decimal c = (48 \<le> (of_char c :: nat) \<and> (of_char c :: nat) \<le> 57)"

definition isdigit_char :: "char \<Rightarrow> bool" where
  \<comment> \<open>below U+0100 the code points with Numeric_Type Digit or Decimal are the ASCII digits
      and the superscripts U+00B2, U+00B3, U+00B9\<close>
  "isdigit_char c =
     (decimal c \<or> (of_char c :: nat) = 178 \<or> (of_char c :: nat) = 179 \<or> (of_char c :: nat) = 185)"

definition isdigit :: "string \<Rightarrow> bool" where
  \<comment> \<open>\<open>s.isdigit()\<close>: at least one character, and all of them digits\<close>
  "isdigit s = (s \<noteq> [] \<and> list_all isdigit_char s)"

definition replace_dot :: "string \<Rightarrow> string" where
  \<comment> \<open>\<open>s.replace('.', '')\<close>\<close>
  "replace_dot s = filter (\<lambda>c. c \<noteq> CHR ''.'') s"

fun py_split :: "char \<Rightarrow> string \<Rightarrow> string list" where
  \<comment> \<open>\<open>s.split(sep)\<close> for a one-character separator: one more part than separators\<close>
  "py_split sep [] = [] # []"
| "py_split sep (c # cs) =
     (if c = sep then [] # py_split sep cs
      else (case py_split sep cs of
              [] \<Rightarrow> [c] # []
            | p # ps \<Rightarrow> (c # p) # ps))"

definition lower_char :: "char \<Rightarrow> char" where
  \<comment> \<open>below U+0100 the upper-case letters are A..Z and U+00C0..U+00DE without U+00D7;
      each is 32 below its lower-case form\<close>
  "lower_char c =
     (let n = (of_char c :: nat)
      in if (65 \<le> n \<and> n \<le> 90) \<or> (192 \<le> n \<and> n \<le> 222 \<and> n \<noteq> 215)
         then char_of (n + 32) else c)"

definition lower :: "string \<Rightarrow> string" where
  "lower s = map lower_char s"

subsection \<open>int(str) and str(int)\<close>

definition int_space :: "char \<Rightarrow> bool" where
  \<comment> \<open>the characters \<open>int()\<close> strips from both ends: tab, LF, VT, FF, CR, space,
      U+0085 and U+00A0\<close>
  "int_space c =
     (let n = (of_char c :: nat)
      in (9 \<le> n \<and> n \<le> 13) \<or> n = 32 \<or> n = 133 \<or> n = 160)"

definition strip :: "string \<Rightarrow> string" where
  "strip s = rev (dropWhile int_space (rev (dropWhile int_space s)))"

fun grouped :: "string \<Rightarrow> bool" where
  \<comment> \<open>digits, with single underscores allowed between two digits\<close>
  "grouped [] = False"
| "grouped [c] = decimal c"
| "grouped (c # d # cs) =
     (decimal c \<and> (if d = CHR ''_'' then grouped cs else grouped (d # cs)))"

definition digit_value :: "char \<Rightarrow> int" where
  "digit_value c = int (of_char c) - 48"

definition digits_value :: "string \<Rightarrow> int" where
  "digits_value ds = foldl (\<lambda>acc c. 10 * acc + digit_value c) 0 ds"

definition int_max_str_digits :: nat where
  \<comment> \<open>the interpreter's default limit on the digits of a converted string\<close>
  "int_max_str_digits = 4300"

definition unsigned :: "string \<Rightarrow> int option" where
  "unsigned body =
     (let ds = filter (\<lambda>c. c \<noteq> CHR ''_'') body
      in if grouped body \<and> length ds \<le> int_max_str_digits
         then Some (digits_value ds) else None)"

definition py_int :: "string \<Rightarrow> int option" where
  \<comment> \<open>\<open>int(s)\<close> in base 10; \<open>None\<close> is the \<open>ValueError\<close>\<close>
  "py_int s =
     (case strip s of
        [] \<Rightarrow> None
      | c # cs \<Rightarrow>
          if c = CHR ''+'' then unsigned cs
          else if c = CHR ''-'' then map_option uminus (unsigned cs)
          else unsigned (c # cs))"

function digits_of :: "int \<Rightarrow> string" where
  \<comment> \<open>the decimal digits of a number that is not negative\<close>
  "digits_of n =
     (if n < 10 then [char_of (48 + n)]
      else digits_of (n div 10) @ [char_of (48 + n mod 10)])"
  by pat_completeness auto
termination
  by (relation "measure nat") auto

declare digits_of.simps [simp del]

definition str :: "int \<Rightarrow> string" where
  \<comment> \<open>\<open>str(n)\<close>, also what an f-string and the csv and json writers print for an int\<close>
  "str n = (if n < 0 then CHR ''-'' # digits_of (- n) else digits_of n)"

section \<open>The network, as the scanner sees it\<close>

datatype py_error = ValueError | OSError | OtherError string

datatype lookup =
    Address string        \<comment> \<open>\<open>socket.gethostbyname\<close> returned this address\<close>
  | Gaierror              \<comment> \<open>it raised \<open>socket.gaierror\<close>\<close>
  | LookupRaised string   \<comment> \<open>it raised something else (the name could not be encoded)\<close>

datatype attempt =
    Returned int          \<comment> \<open>\<open>connect_ex\<close> returned this error indicator, 0 for success\<close>
  | Raised string         \<comment> \<open>creating the socket, \<open>settimeout\<close> or \<open>connect_ex\<close> raised an
                              \<open>Exception\<close> whose \<open>str\<close> is this\<close>

record 't env =
  gethostbyname :: "string \<Rightarrow> lookup"
  getservbyport :: "int \<Rightarrow> string option"   \<comment> \<open>\<open>None\<close>: the call raised\<close>
  connect_ex :: "'t \<Rightarrow> string \<Rightarrow> int \<Rightarrow> attempt"   \<comment> \<open>timeout, address, port\<close>

section \<open>class PortScanner\<close>

record 't scanner =
  target :: string
  threads :: int
  timeout :: 't
  open_ports :: "(int \<times> string option) list"

definition init :: "string \<Rightarrow> int \<Rightarrow> 't \<Rightarrow> 't scanner" where
  \<comment> \<open>\<open>__init__\<close>\<close>
  "init tg th tm = \<lparr>target = tg, threads = th, timeout = tm, open_ports = []\<rparr>"

subsection \<open>resolve_target\<close>

record resolution =
  lookups :: "string list"                    \<comment> \<open>the names handed to \<open>gethostbyname\<close>\<close>
  printed :: "string list"                    \<comment> \<open>the lines printed\<close>
  returned :: "py_error + string option"      \<comment> \<open>\<open>Inl\<close>: an exception left the method\<close>

definition resolve_target :: "'t env \<Rightarrow> 't scanner \<Rightarrow> resolution" where
  "resolve_target env self =
     (if \<not> isdigit (replace_dot (target self)) then
        (case gethostbyname env (target self) of
           Address ip \<Rightarrow>
             \<lparr>lookups = [target self],
              printed = [''[+] '' @ target self @ '' r'' @ [e_acute] @ ''solu en '' @ ip],
              returned = Inr (Some ip)\<rparr>
         | Gaierror \<Rightarrow>
             \<lparr>lookups = [target self],
              printed = [''[-] Impossible de r'' @ [e_acute] @ ''soudre '' @ target self],
              returned = Inr None\<rparr>
         | LookupRaised m \<Rightarrow>
             \<lparr>lookups = [target self], printed = [], returned = Inl (OtherError m)\<rparr>)
      else \<lparr>lookups = [], printed = [], returned = Inr (Some (target self))\<rparr>)"

subsection \<open>get_service_name\<close>

definition common_services :: "(int \<times> string) list" where
  "common_services =
     [(21, ''FTP''), (22, ''SSH''), (23, ''Telnet''), (25, ''SMTP''),
      (53, ''DNS''), (80, ''HTTP''), (110, ''POP3''), (143, ''IMAP''),
      (443, ''HTTPS''), (993, ''IMAPS''), (995, ''POP3S''),
      (3306, ''MySQL''), (5432, ''PostgreSQL''), (3389, ''RDP'')]"

definition get_service_name :: "'t env \<Rightarrow> int \<Rightarrow> string" where
  \<comment> \<open>the bare \<open>except:\<close> catches whatever \<open>getservbyport\<close> raises\<close>
  "get_service_name env port =
     (case getservbyport env port of
        Some service \<Rightarrow> service
      | None \<Rightarrow>
          (case map_of common_services port of
             Some label \<Rightarrow> label
           | None \<Rightarrow> ''Inconnu''))"

subsection \<open>scan_port\<close>

definition ouvert :: string where
  "ouvert = ''ouvert''"

definition ferme :: string where
  "ferme = ''ferm'' @ [e_acute]"

definition erreur :: "string \<Rightarrow> string" where
  "erreur e = ''erreur: '' @ e"

definition scan_port :: "'t env \<Rightarrow> 't scanner \<Rightarrow> int \<Rightarrow> int \<times> string option \<times> string" where
  "scan_port env self port =
     (case connect_ex env (timeout self) (target self) port of
        Returned result \<Rightarrow>
          if result = 0 then (port, Some (get_service_name env port), ouvert)
          else (port, None, ferme)
      | Raised e \<Rightarrow> (port, None, erreur e))"

subsection \<open>port_scan\<close>

definition parse_range :: "string \<Rightarrow> py_error + int \<times> int" where
  \<comment> \<open>\<open>start_port, end_port = map(int, port_range.split('-'))\<close>: a part that is no integer
      literal, fewer than two parts and more than two parts all raise \<open>ValueError\<close>\<close>
  "parse_range port_range =
     (case map py_int (py_split CHR ''-'' port_range) of
        [Some start_port, Some end_port] \<Rightarrow> Inr (start_port, end_port)
      | _ \<Rightarrow> Inl ValueError)"

definition as_completed :: "(int \<Rightarrow> int) \<Rightarrow> int list \<Rightarrow> int list" where
  \<comment> \<open>the order in which the futures are handed back is the scheduler's: \<open>rank\<close> gives
      each port's place in it\<close>
  "as_completed rank ports = sort_key rank ports"

fun place :: "int list \<Rightarrow> int \<Rightarrow> int" where
  \<comment> \<open>the rank that hands the ports back in a chosen order: a port's index in that order\<close>
  "place [] port = 0"
| "place (q # qs) port = (if port = q then 0 else 1 + place qs port)"

definition fmt_service :: "string option \<Rightarrow> string" where
  \<comment> \<open>how an f-string prints the service\<close>
  "fmt_service service = (case service of None \<Rightarrow> ''None'' | Some s \<Rightarrow> s)"

record 't scan =
  probed :: "int list"                   \<comment> \<open>the ports submitted to the pool, one socket each\<close>
  reported :: "string list"              \<comment> \<open>the lines printed\<close>
  outcome :: "py_error + 't scanner"     \<comment> \<open>\<open>Inl\<close>: an exception left the method\<close>

definition port_scan :: "'t env \<Rightarrow> (int \<Rightarrow> int) \<Rightarrow> 't scanner \<Rightarrow> string \<Rightarrow> 't scan" where
  "port_scan env rank self port_range =
     (let banner = ''[*] Scan des ports '' @ port_range @ '' sur '' @ target self
      in case parse_range port_range of
           Inl e \<Rightarrow> \<lparr>probed = [], reported = [banner], outcome = Inl e\<rparr>
         | Inr (start_port, end_port) \<Rightarrow>
             let ports_to_scan = [start_port..end_port]
             in if threads self \<le> 0
                then \<lparr>probed = [], reported = [banner], outcome = Inl ValueError\<rparr>
                else
                  let results = map (scan_port env self) (as_completed rank ports_to_scan);
                      found = filter (\<lambda>(port, service, status). status = ouvert) results
                  in \<lparr>probed = ports_to_scan,
                      reported = banner #
                        map (\<lambda>(port, service, status).
                               ''[+] Port '' @ str port @ '' ouvert - '' @ fmt_service service) found,
                      outcome = Inr (self\<lparr>open_ports :=
                        open_ports self @ map (\<lambda>(port, service, status). (port, service)) found\<rparr>)\<rparr>)"

subsection \<open>save_results\<close>

definition csv_special :: "char \<Rightarrow> bool" where
  \<comment> \<open>the delimiter, the quote character and the characters of the line terminator\<close>
  "csv_special c = (c = CHR '','' \<or> c = dquote \<or> c = CR \<or> c = LF)"

definition csv_field :: "string \<Rightarrow> string" where
  \<comment> \<open>minimal quoting, quotes doubled\<close>
  "csv_field f =
     (if list_ex csv_special f
      then [dquote] @ concat (map (\<lambda>c. if c = dquote then [c, c] else [c]) f) @ [dquote]
      else f)"

fun join :: "string \<Rightarrow> string list \<Rightarrow> string" where
  \<comment> \<open>\<open>sep.join(parts)\<close>\<close>
  "join sep [] = []"
| "join sep [p] = p"
| "join sep (p # q # ps) = p @ sep @ join sep (q # ps)"

definition csv_line :: "string list \<Rightarrow> string" where
  "csv_line cells = join '','' (map csv_field cells) @ [CR, LF]"

definition csv_row :: "int \<times> string option \<Rightarrow> string list" where
  \<comment> \<open>the row built for a tuple: port, service (\<open>None\<close> is written as the empty string)
      and an empty banner; \<open>port_scan\<close> appends nothing but \<open>(port, service)\<close> tuples, so the
      branches for a dict and for any other entry are never taken\<close>
  "csv_row r = (case r of (port, service) \<Rightarrow>
     [str port, (case service of None \<Rightarrow> [] | Some s \<Rightarrow> s), []])"

definition csv_rows :: "(int \<times> string option) list \<Rightarrow> string list list" where
  "csv_rows ports = [''port'', ''service'', ''banner''] # map csv_row ports"

definition csv_text :: "(int \<times> string option) list \<Rightarrow> string" where
  "csv_text ports = concat (map csv_line (csv_rows ports))"


definition hex_digit :: "nat \<Rightarrow> char" where
  "hex_digit n = (if n < 10 then char_of (48 + n) else char_of (87 + n))"

definition json_char :: "char \<Rightarrow> string" where
  "json_char c =
     (let n = (of_char c :: nat)
      in if c = dquote then [backslash, dquote]
         else if c = backslash then [backslash, backslash]
         else if n = 10 then [backslash, CHR ''n'']
         else if n = 13 then [backslash, CHR ''r'']
         else if n = 9 then [backslash, CHR ''t'']
         else if n = 8 then [backslash, CHR ''b'']
         else if n = 12 then [backslash, CHR ''f'']
         else if n < 32 then [backslash, CHR ''u'', CHR ''0'', CHR ''0'',
                              hex_digit (n div 16), hex_digit (n mod 16)]
         else [c])"

definition json_value :: "string option \<Rightarrow> string" where
  "json_value service =
     (case service of
        None \<Rightarrow> ''null''
      | Some s \<Rightarrow> [dquote] @ concat (map json_char s) @ [dquote])"

definition json_pair :: "int \<times> string option \<Rightarrow> string" where
  "json_pair r = (case r of (port, service) \<Rightarrow>
     ''  ['' @ [LF] @ ''    '' @ str port @ '','' @ [LF] @
     ''    '' @ json_value service @ [LF] @ ''  ]'')"

definition json_text :: "(int \<times> string option) list \<Rightarrow> string" where
  \<comment> \<open>\<open>json.dump(..., ensure_ascii=False, indent=2)\<close> of a list of pairs\<close>
  "json_text ports =
     (if ports = [] then ''[]''
      else ''['' @ [LF] @ join ('','' @ [LF]) (map json_pair ports) @ [LF] @ '']'')"

datatype saved =
    NotWritten                 \<comment> \<open>no file name: nothing is written\<close>
  | Written string string      \<comment> \<open>file name and the text written to it\<close>
  | UnknownFormat              \<comment> \<open>a warning is logged, nothing is written\<close>

definition save_results ::
  "(string \<Rightarrow> bool) \<Rightarrow> 't scanner \<Rightarrow> string option \<Rightarrow> string \<Rightarrow> py_error + saved" where
  \<comment> \<open>\<open>writable\<close> says whether \<open>open(filename, 'w')\<close> succeeds; it raises \<open>OSError\<close> otherwise\<close>
  "save_results writable self filename fmt =
     (case filename of
        None \<Rightarrow> Inr NotWritten
      | Some name \<Rightarrow>
          if name = [] then Inr NotWritten
          else if lower fmt = ''json'' then
            (if writable name then Inr (Written name (json_text (open_ports self))) else Inl OSError)
          else if lower fmt = ''csv'' then
            (if writable name then Inr (Written name (csv_text (open_ports self))) else Inl OSError)
          else Inr UnknownFormat)"

section \<open>main\<close>

record 't args =
  arg_target :: string
  arg_ports :: string
  arg_threads :: int
  arg_timeout :: 't
  arg_output :: "string option"
  arg_format :: string

record run =
  resolved_names :: "string list"          \<comment> \<open>the names handed to \<open>gethostbyname\<close>\<close>
  sockets :: "(string \<times> int) list"         \<comment> \<open>address and port of every probe\<close>
  console :: "string list"                 \<comment> \<open>the lines printed\<close>
  found_ports :: "(int \<times> string option) list"   \<comment> \<open>\<open>scanner.open_ports\<close> at the end\<close>
  written :: saved
  uncaught :: "py_error option"            \<comment> \<open>the exception that ended the program, if any\<close>

definition main ::
  "'t env \<Rightarrow> (string \<Rightarrow> bool) \<Rightarrow> (int \<Rightarrow> int) \<Rightarrow> string \<Rightarrow> 't args \<Rightarrow> run" where
  \<comment> \<open>\<open>elapsed\<close> is the clock's text for the seconds the scan took\<close>
  "main env writable rank elapsed args =
     (let start = ''[*] D'' @ [e_acute] @ ''marrage du scan sur '' @ arg_target args;
          scanner = init (arg_target args) (arg_threads args) (arg_timeout args);
          r = resolve_target env scanner;
          stopped = \<lparr>resolved_names = lookups r, sockets = [], console = start # printed r,
                     found_ports = [], written = NotWritten, uncaught = None\<rparr>
      in case returned r of
           Inl e \<Rightarrow> (stopped\<lparr>uncaught := Some e\<rparr>)
         | Inr None \<Rightarrow> stopped
         | Inr (Some resolved_target) \<Rightarrow>
            (if resolved_target = [] then stopped
             else
               (let s = port_scan env rank (scanner\<lparr>target := resolved_target\<rparr>) (arg_ports args);
                    scanned = stopped\<lparr>sockets := map (Pair resolved_target) (probed s),
                                      console := start # printed r @ reported s\<rparr>
                in (case outcome s of
                      Inl e \<Rightarrow> (scanned\<lparr>uncaught := Some e\<rparr>)
                    | Inr after \<Rightarrow>
                       (let finished = scanned\<lparr>found_ports := open_ports after,
                              console := console scanned @
                                [LF # ''[o] Scan termin'' @ [e_acute] @ '' en '' @ elapsed @ '' secondes'',
                                 ''[+] '' @ str (int (length (open_ports after))) @
                                   '' ports ouverts trouv'' @ [e_acute] @ ''s'']\<rparr>
                        in (case arg_output args of
                              None \<Rightarrow> finished
                            | Some name \<Rightarrow>
                               (if name = [] then finished
                                else (case save_results writable after (Some name) (arg_format args) of
                                        Inl e \<Rightarrow> (finished\<lparr>uncaught := Some e\<rparr>)
                                      | Inr w \<Rightarrow> (finished\<lparr>written := w\<rparr>)))))))))"

section \<open>Host identifiers\<close>

definition digits_and_dots :: "string \<Rightarrow> bool" where
  \<comment> \<open>composed only of decimal digits and dots\<close>
  "digits_and_dots s = list_all (\<lambda>c. decimal c \<or> c = CHR ''.'') s"

definition ipv4_octet :: "string \<Rightarrow> bool" where
  "ipv4_octet s = (s \<noteq> [] \<and> length s \<le> 3 \<and> list_all decimal s \<and> digits_value s \<le> 255)"

definition valid_ipv4 :: "string \<Rightarrow> bool" where
  \<comment> \<open>dotted-quad notation: four decimal numbers 0..255 separated by dots\<close>
  "valid_ipv4 s =
     (case py_split CHR ''.'' s of
        [a, b, c, d] \<Rightarrow> ipv4_octet a \<and> ipv4_octet b \<and> ipv4_octet c \<and> ipv4_octet d
      | _ \<Rightarrow> False)"

section \<open>Sample environments\<close>

definition offline :: "int env" where
  \<comment> \<open>no name resolves, no service database, every connection refused (errno 111)\<close>
  "offline = \<lparr>gethostbyname = (\<lambda>name. Gaierror), getservbyport = (\<lambda>port. None),
              connect_ex = (\<lambda>tm host port. Returned 111)\<rparr>"

definition lab :: "int env" where
  \<comment> \<open>a host with ports 22 and 80 open, port 25 timing out (errno 11), port 70000 rejected
      by the socket layer, all others refused; the service database knows port 80; the
      name \<open>lab.test\<close> resolves, the empty name is the wildcard address, a lone dot cannot
      be encoded\<close>
  "lab = \<lparr>gethostbyname = (\<lambda>name.
             if name = ''lab.test'' then Address ''10.0.0.5''
             else if name = [] then Address ''0.0.0.0''
             else if name = ''.'' then LookupRaised ''label empty or too long''
             else Gaierror),
          getservbyport = (\<lambda>port. if port = 80 then Some ''http'' else None),
          connect_ex = (\<lambda>tm host port.
             if port = 22 \<or> port = 80 then Returned 0
             else if port = 25 then Returned 11
             else if port < 0 \<or> 65535 < port then Raised ''connect_ex(): port must be 0-65535.''
             else Returned 111)\<rparr>"

definition reversed :: "int \<Rightarrow> int" where
  \<comment> \<open>a schedule that completes higher ports first\<close>
  "reversed port = - port"

definition in_order :: "int \<Rightarrow> int" where
  \<comment> \<open>a schedule that completes the probes in the order they were submitted\<close>
  "in_order port = 0"

definition any_path :: "string \<Rightarrow> bool" where
  \<comment> \<open>every output file can be opened\<close>
  "any_path name = True"

definition cli :: "string \<Rightarrow> string \<Rightarrow> int args" where
  \<comment> \<open>a command line with the default threads and timeout, writing \<open>out.csv\<close>\<close>
  "cli host ports = \<lparr>arg_target = host, arg_ports = ports, arg_threads = 10, arg_timeout = 2,
                       arg_output = Some ''out.csv'', arg_format = ''csv''\<rparr>"

section \<open>The resolver\<close>

lemma py_split_not_Nil: "py_split sep s \<noteq> []"
  by (induction s) (auto split: list.splits)

lemma concat_py_split: "concat (py_split sep s) = filter (\<lambda>c. c \<noteq> sep) s"
  by (induction s) (auto split: list.splits simp: py_split_not_Nil)

lemma decimal_isdigit_char: "decimal c \<Longrightarrow> isdigit_char c"
  by (simp add: isdigit_char_def)

lemma decimal_not_dot: "decimal c \<Longrightarrow> c \<noteq> CHR ''.''"
  by (auto simp: decimal_def)

lemma literal_kept:
  "isdigit (replace_dot (target self)) \<Longrightarrow>
   resolve_target env self = \<lparr>lookups = [], printed = [], returned = Inr (Some (target self))\<rparr>"
  by (simp add: resolve_target_def)

lemma main_resolved_names:
  "resolved_names (main env writable rank elapsed args) =
   lookups (resolve_target env (init (arg_target args) (arg_threads args) (arg_timeout args)))"
  by (simp add: main_def Let_def split: sum.splits option.splits)

lemma main_literal_no_lookup:
  assumes "isdigit (replace_dot (arg_target args))"
  shows "resolved_names (main env writable rank elapsed args) = []"
  using assms literal_kept [of "init (arg_target args) (arg_threads args) (arg_timeout args)" env]
  by (simp add: main_resolved_names init_def)

lemma digits_and_dots_isdigit:
  assumes "digits_and_dots s" and "list_ex decimal s"
  shows "isdigit (replace_dot s)"
proof -
  from assms(2) obtain c where c: "c \<in> set s" "decimal c"
    by (auto simp: list_ex_iff)
  then have "c \<in> set (replace_dot s)"
    by (simp add: replace_dot_def decimal_not_dot)
  then have ne: "replace_dot s \<noteq> []" by auto
  have "list_all isdigit_char (replace_dot s)"
    using assms(1)
    by (auto simp: digits_and_dots_def replace_dot_def list_all_iff decimal_isdigit_char)
  with ne show ?thesis by (simp add: isdigit_def)
qed

lemma valid_ipv4_isdigit:
  assumes "valid_ipv4 s"
  shows "isdigit (replace_dot s)"
proof -
  from assms obtain a b c d where parts: "py_split CHR ''.'' s = [a, b, c, d]"
    and oct: "ipv4_octet a" "ipv4_octet b" "ipv4_octet c" "ipv4_octet d"
    by (auto simp: valid_ipv4_def split: list.splits)
  have "replace_dot s = concat (py_split CHR ''.'' s)"
    by (simp add: replace_dot_def concat_py_split)
  then have "replace_dot s = a @ b @ c @ d"
    by (simp add: parts)
  with oct show ?thesis
    by (auto simp: isdigit_def ipv4_octet_def list_all_iff decimal_isdigit_char)
qed

text \<open>
  C6. Given a valid literal IPv4 address \<open>t\<close> as the host identifier, \<open>resolve_target\<close>
  returns \<open>t\<close> itself and \<open>gethostbyname\<close> is never called, neither by the method nor by
  a whole run of \<open>main\<close>.
\<close>

theorem ipv4_literal_unchanged:
  assumes "valid_ipv4 t" and "target self = t" and "arg_target args = t"
  shows "returned (resolve_target env self) = Inr (Some t) \<and>
         lookups (resolve_target env self) = [] \<and>
         resolved_names (main env writable rank elapsed args) = []"
  using assms valid_ipv4_isdigit [of t] literal_kept [of self env]
    main_literal_no_lookup [of args env writable rank elapsed]
  by simp

theorem ipv4_literal_unchanged_witness:
  "valid_ipv4 ''192.168.1.1'' \<and>
   returned (resolve_target offline (init ''192.168.1.1'' 10 2)) = Inr (Some ''192.168.1.1'') \<and>
   lookups (resolve_target offline (init ''192.168.1.1'' 10 2)) = [] \<and>
   resolved_names (main offline any_path in_order ''0.10'' (cli ''192.168.1.1'' ''1-1024'')) = []"
proof -
  have v: "valid_ipv4 ''192.168.1.1''" by code_simp
  show ?thesis
    using v ipv4_literal_unchanged [OF v, of "init ''192.168.1.1'' 10 2"
        "cli ''192.168.1.1'' ''1-1024''" offline any_path in_order "''0.10''"]
    by (simp add: init_def cli_def)
qed

text \<open>
  C10, as claimed, fails: an identifier made of dots only, or the empty identifier, is
  composed of nothing but digits and dots, yet \<open>isdigit\<close> is false on the empty string that
  is left once the dots are removed, so the name is handed to \<open>gethostbyname\<close>. In the
  \<open>lab\<close> network the lone dot ends in an exception and the empty identifier comes back as
  the wildcard address.
\<close>

theorem digits_and_dots_counterexample:
  "digits_and_dots ''.'' \<and>
   lookups (resolve_target lab (init ''.'' 10 2)) = [''.''] \<and>
   returned (resolve_target lab (init ''.'' 10 2)) = Inl (OtherError ''label empty or too long'') \<and>
   digits_and_dots [] \<and>
   lookups (resolve_target lab (init [] 10 2)) = [] # [] \<and>
   returned (resolve_target lab (init [] 10 2)) = Inr (Some ''0.0.0.0'')"
  by (simp add: digits_and_dots_def resolve_target_def init_def lab_def isdigit_def replace_dot_def)

text \<open>
  C10, amended. A host identifier composed only of decimal digits and dots that holds at
  least one digit is returned unchanged, whether or not it is a valid address, and no name
  lookup is made.
\<close>

theorem digit_literal_unchanged:
  assumes "digits_and_dots (target self)" and "list_ex decimal (target self)"
  shows "returned (resolve_target env self) = Inr (Some (target self)) \<and>
         lookups (resolve_target env self) = []"
  using digits_and_dots_isdigit [OF assms] literal_kept [of self env] by simp

theorem digit_literal_unchanged_witness:
  "digits_and_dots ''999.999.999.999'' \<and> list_ex decimal ''999.999.999.999'' \<and>
   \<not> valid_ipv4 ''999.999.999.999'' \<and>
   returned (resolve_target offline (init ''999.999.999.999'' 10 2)) =
     Inr (Some ''999.999.999.999'') \<and>
   lookups (resolve_target offline (init ''999.999.999.999'' 10 2)) = []"
proof -
  have d: "digits_and_dots ''999.999.999.999''" by code_simp
  have e: "list_ex decimal ''999.999.999.999''" by code_simp
  have n: "\<not> valid_ipv4 ''999.999.999.999''" by code_simp
  show ?thesis
    using d e n digit_literal_unchanged [of "init ''999.999.999.999'' 10 2" offline]
    by (simp add: init_def)
qed

section \<open>Probing one port\<close>

lemma ferme_not_ouvert: "ferme \<noteq> ouvert"
  by (simp add: ferme_def ouvert_def)

lemma erreur_not_ouvert: "erreur e \<noteq> ouvert"
  by (simp add: erreur_def ouvert_def)

lemma scan_port_ouvert:
  "scan_port env self port = (p, service, ouvert) \<longleftrightarrow>
   p = port \<and> service = Some (get_service_name env port) \<and>
   connect_ex env (timeout self) (target self) port = Returned 0"
  using ferme_not_ouvert erreur_not_ouvert
  by (auto simp: scan_port_def split: attempt.splits)

lemma found_pairs:
  "map (\<lambda>(port, service, status). (port, service))
       (filter (\<lambda>(port, service, status). status = ouvert) (map (scan_port env self) ports)) =
   map (\<lambda>port. (port, Some (get_service_name env port)))
       (filter (\<lambda>port. connect_ex env (timeout self) (target self) port = Returned 0) ports)"
proof (induction ports)
  case Nil
  show ?case by simp
next
  case (Cons p ps)
  show ?case
  proof (cases "connect_ex env (timeout self) (target self) p")
    case (Returned code)
    with Cons ferme_not_ouvert show ?thesis by (simp add: scan_port_def)
  next
    case (Raised e)
    with Cons erreur_not_ouvert show ?thesis by (simp add: scan_port_def)
  qed
qed

section \<open>Scanning a range\<close>

lemma parse_range_two:
  "py_split CHR ''-'' r = [a, b] \<Longrightarrow> py_int a = Some s \<Longrightarrow> py_int b = Some e \<Longrightarrow>
   parse_range r = Inr (s, e)"
  by (simp add: parse_range_def)

lemma parse_range_malformed:
  "length (py_split CHR ''-'' r) \<noteq> 2 \<or> list_ex (\<lambda>p. py_int p = None) (py_split CHR ''-'' r) \<Longrightarrow>
   parse_range r = Inl ValueError"
  by (auto simp: parse_range_def split: list.splits option.splits)

lemma parse_range_Inl: "parse_range r = Inl e \<Longrightarrow> e = ValueError"
  by (auto simp: parse_range_def split: list.splits option.splits)

lemma port_scan_malformed:
  "parse_range port_range = Inl e \<Longrightarrow>
   probed (port_scan env rank self port_range) = [] \<and>
   outcome (port_scan env rank self port_range) = Inl e"
  by (simp add: port_scan_def)

lemma port_scan_no_workers:
  "parse_range port_range = Inr (a, b) \<Longrightarrow> threads self \<le> 0 \<Longrightarrow>
   probed (port_scan env rank self port_range) = [] \<and>
   outcome (port_scan env rank self port_range) = Inl ValueError"
  by (simp add: port_scan_def)

lemma port_scan_runs:
  assumes "parse_range port_range = Inr (a, b)" and "0 < threads self"
  shows "probed (port_scan env rank self port_range) = [a..b]"
    and "outcome (port_scan env rank self port_range) =
         Inr (self\<lparr>open_ports := open_ports self @
           map (\<lambda>port. (port, Some (get_service_name env port)))
               (filter (\<lambda>port. connect_ex env (timeout self) (target self) port = Returned 0)
                       (as_completed rank [a..b]))\<rparr>)"
  using assms by (simp_all add: port_scan_def Let_def found_pairs)

lemma port_scan_completed:
  assumes "outcome (port_scan env rank self port_range) = Inr after"
  obtains a b where "parse_range port_range = Inr (a, b)" and "0 < threads self"
proof (cases "parse_range port_range")
  case (Inl e)
  with assms show ?thesis by (simp add: port_scan_def)
next
  case (Inr ab)
  obtain a b where ab: "ab = (a, b)" by (cases ab)
  show ?thesis
  proof (cases "threads self \<le> 0")
    case True
    with Inr ab assms show ?thesis by (simp add: port_scan_def)
  next
    case False
    with Inr ab that show ?thesis by simp
  qed
qed

lemma port_scan_raises_before_probing:
  "outcome (port_scan env rank self port_range) = Inl e \<Longrightarrow>
   probed (port_scan env rank self port_range) = []"
  by (auto simp: port_scan_def Let_def split: sum.splits prod.splits if_splits)

lemma set_as_completed: "set (as_completed rank ports) = set ports"
  by (simp add: as_completed_def)

lemma distinct_as_completed: "distinct (as_completed rank ports) = distinct ports"
  by (simp add: as_completed_def)

text \<open>
  Every order in which the submitted ports can complete is the order of some rank, so a
  statement made for all ranks is made for all completion orders.
\<close>

lemma place_nonneg: "0 \<le> place qs p"
  by (induction qs) auto

lemma place_less: "p \<in> set qs \<Longrightarrow> place qs p < int (length qs)"
  by (induction qs) auto

lemma place_inj: "inj_on (place qs) (set qs)"
proof (induction qs)
  case Nil
  show ?case by simp
next
  case (Cons q qs)
  show ?case
  proof (rule inj_onI)
    fix x y
    assume "x \<in> set (q # qs)" "y \<in> set (q # qs)" "place (q # qs) x = place (q # qs) y"
    then show "x = y"
      using Cons place_nonneg [of qs x] place_nonneg [of qs y]
      by (auto simp: inj_on_def split: if_splits)
  qed
qed

lemma place_sorted: "distinct qs \<Longrightarrow> sorted (map (place qs) qs)"
proof (induction qs)
  case Nil
  show ?case by simp
next
  case (Cons q qs)
  then have tail: "sorted_wrt (\<lambda>x y. place qs x \<le> place qs y) qs"
    by (simp add: sorted_map)
  have "sorted_wrt (\<lambda>x y. place (q # qs) x \<le> place (q # qs) y) qs"
    by (rule sorted_wrt_mono_rel [OF _ tail]) (use Cons.prems in auto)
  moreover have "place (q # qs) q \<le> place (q # qs) y" for y
    using place_nonneg [of qs y] by simp
  ultimately show ?case
    by (simp add: sorted_map del: place.simps)
qed

lemma every_order_has_a_rank:
  assumes "distinct order" and "distinct ports" and "set order = set ports"
  shows "as_completed (place order) ports = order"
proof -
  let ?f = "place order"
  let ?s = "sort_key ?f ports"
  have inj: "inj_on ?f (set order)" by (rule place_inj)
  have "sorted (map ?f ?s)" by simp
  moreover have "distinct (map ?f ?s)"
    using assms inj by (simp add: distinct_map)
  moreover have "sorted (map ?f order)" using assms(1) by (rule place_sorted)
  moreover have "distinct (map ?f order)"
    using assms(1) inj by (simp add: distinct_map)
  moreover have "set (map ?f ?s) = set (map ?f order)"
    using assms(3) by simp
  ultimately have "map ?f ?s = map ?f order"
    by (rule sorted_distinct_set_unique)
  moreover have "inj_on ?f (set ?s \<union> set order)"
    using inj assms(3) by simp
  ultimately have "?s = order"
    by (simp add: inj_on_map_eq_map)
  then show ?thesis by (simp add: as_completed_def)
qed

lemma main_stops:
  assumes "returned (resolve_target env (init (arg_target args) (arg_threads args) (arg_timeout args)))
           = Inr None"
  shows "main env writable rank elapsed args =
         \<lparr>resolved_names = lookups (resolve_target env
              (init (arg_target args) (arg_threads args) (arg_timeout args))),
          sockets = [],
          console = (''[*] D'' @ [e_acute] @ ''marrage du scan sur '' @ arg_target args) #
            printed (resolve_target env
              (init (arg_target args) (arg_threads args) (arg_timeout args))),
          found_ports = [], written = NotWritten, uncaught = None\<rparr>"
  using assms by (simp add: main_def Let_def)

lemma main_raises:
  assumes "returned (resolve_target env (init (arg_target args) (arg_threads args) (arg_timeout args)))
           = Inl e"
  shows "sockets (main env writable rank elapsed args) = [] \<and>
         found_ports (main env writable rank elapsed args) = [] \<and>
         written (main env writable rank elapsed args) = NotWritten \<and>
         uncaught (main env writable rank elapsed args) = Some e"
  using assms by (simp add: main_def Let_def)

lemma main_scans:
  assumes "returned (resolve_target env (init (arg_target args) (arg_threads args) (arg_timeout args)))
           = Inr (Some ip)"
  shows "sockets (main env writable rank elapsed args) =
           (if ip = [] then []
            else map (Pair ip) (probed (port_scan env rank
                   (init (arg_target args) (arg_threads args) (arg_timeout args)\<lparr>target := ip\<rparr>)
                   (arg_ports args))))"
    and "found_ports (main env writable rank elapsed args) =
           (if ip = [] then []
            else (case outcome (port_scan env rank
                   (init (arg_target args) (arg_threads args) (arg_timeout args)\<lparr>target := ip\<rparr>)
                   (arg_ports args)) of
                    Inl e \<Rightarrow> []
                  | Inr after \<Rightarrow> open_ports after))"
  using assms by (simp_all add: main_def Let_def split: sum.splits option.splits)

text \<open>
  C1, as claimed, fails. The expression \<open>100-50\<close> is not rejected: both bounds are integer
  literals, \<open>range(100, 51)\<close> is empty, and the scan returns normally having probed nothing.
  Out-of-range values are not rejected either: \<open>69999-70000\<close> is scanned, one socket per
  port. Nothing in \<open>port_scan\<close> compares the bounds with each other or with 1 and 65535.
\<close>

theorem malformed_range_counterexample:
  "outcome (port_scan lab in_order (init ''10.0.0.5'' 10 2) ''100-50'') =
     Inr (init ''10.0.0.5'' 10 2) \<and>
   probed (port_scan lab in_order (init ''10.0.0.5'' 10 2) ''100-50'') = [] \<and>
   outcome (port_scan lab in_order (init ''10.0.0.5'' 10 2) ''69999-70000'') =
     Inr (init ''10.0.0.5'' 10 2) \<and>
   probed (port_scan lab in_order (init ''10.0.0.5'' 10 2) ''69999-70000'') = [69999, 70000]"
  by code_simp

text \<open>
  C1, amended. A port-range expression that does not split at \<open>-\<close> into exactly two parts,
  or one of whose parts is not an integer literal (such as \<open>abc-100\<close>), makes the scan fail
  with a \<open>ValueError\<close> before any socket is opened, in \<open>port_scan\<close> and in a whole run of
  \<open>main\<close>. An expression of two integer literals always parses and is never rejected for
  its values, neither for a start greater than the end nor for values out of range. What
  happens next depends on the thread count alone. With a positive thread count the ports
  from start to end are probed and the scan returns normally; when start is greater than
  end (such as \<open>100-50\<close>) these are no ports at all, and the scan returns with the result
  list unchanged. With a thread count of zero or less the worker pool refuses to start: the
  scan fails with a \<open>ValueError\<close>, again before any socket is opened.
\<close>

theorem range_expression_checked_by_int_only:
  "(length (py_split CHR ''-'' r) \<noteq> 2 \<or> list_ex (\<lambda>p. py_int p = None) (py_split CHR ''-'' r) \<longrightarrow>
      outcome (port_scan env rank self r) = Inl ValueError \<and>
      probed (port_scan env rank self r) = [] \<and>
      (arg_ports args = r \<longrightarrow> sockets (main env writable rank elapsed args) = [])) \<and>
   (py_split CHR ''-'' r = [a, b] \<and> py_int a = Some s \<and> py_int b = Some e \<longrightarrow>
      parse_range r = Inr (s, e) \<and>
      (0 < threads self \<longrightarrow>
         probed (port_scan env rank self r) = [s..e] \<and>
         (\<exists>after. outcome (port_scan env rank self r) = Inr after) \<and>
         (e < s \<longrightarrow> probed (port_scan env rank self r) = [] \<and>
                    outcome (port_scan env rank self r) = Inr self)) \<and>
      (threads self \<le> 0 \<longrightarrow>
         probed (port_scan env rank self r) = [] \<and>
         outcome (port_scan env rank self r) = Inl ValueError))"
proof -
  let ?res = "resolve_target env (init (arg_target args) (arg_threads args) (arg_timeout args))"
  have malformed: "outcome (port_scan env rank self r) = Inl ValueError \<and>
      probed (port_scan env rank self r) = [] \<and>
      (arg_ports args = r \<longrightarrow> sockets (main env writable rank elapsed args) = [])"
    if bad: "length (py_split CHR ''-'' r) \<noteq> 2 \<or>
             list_ex (\<lambda>p. py_int p = None) (py_split CHR ''-'' r)"
  proof -
    from bad have p: "parse_range r = Inl ValueError"
      by (rule parse_range_malformed)
    have "sockets (main env writable rank elapsed args) = []" if r: "arg_ports args = r"
    proof (cases "returned ?res")
      case (Inl x)
      then show ?thesis by (simp add: main_raises)
    next
      case (Inr got)
      show ?thesis
      proof (cases got)
        case None
        with Inr show ?thesis by (simp add: main_stops)
      next
        case (Some ip)
        with Inr have "returned ?res = Inr (Some ip)" by simp
        from main_scans(1) [OF this, of writable rank elapsed] r
          port_scan_malformed [OF p, of env rank
            "init (arg_target args) (arg_threads args) (arg_timeout args)\<lparr>target := ip\<rparr>"]
        show ?thesis by simp
      qed
    qed
    with port_scan_malformed [OF p, of env rank self] show ?thesis by simp
  qed
  have accepted: "parse_range r = Inr (s, e) \<and>
      (0 < threads self \<longrightarrow>
         probed (port_scan env rank self r) = [s..e] \<and>
         (\<exists>after. outcome (port_scan env rank self r) = Inr after) \<and>
         (e < s \<longrightarrow> probed (port_scan env rank self r) = [] \<and>
                    outcome (port_scan env rank self r) = Inr self)) \<and>
      (threads self \<le> 0 \<longrightarrow>
         probed (port_scan env rank self r) = [] \<and>
         outcome (port_scan env rank self r) = Inl ValueError)"
    if ok: "py_split CHR ''-'' r = [a, b] \<and> py_int a = Some s \<and> py_int b = Some e"
  proof -
    from ok have p: "parse_range r = Inr (s, e)"
      by (simp add: parse_range_two)
    have pool: "probed (port_scan env rank self r) = [s..e] \<and>
         (\<exists>after. outcome (port_scan env rank self r) = Inr after) \<and>
         (e < s \<longrightarrow> probed (port_scan env rank self r) = [] \<and>
                    outcome (port_scan env rank self r) = Inr self)"
      if t: "0 < threads self"
    proof -
      note run = port_scan_runs [OF p t, of env rank]
      have "e < s \<Longrightarrow> [s..e] = []" by simp
      with run show ?thesis by (auto simp: as_completed_def)
    qed
    have none: "probed (port_scan env rank self r) = [] \<and>
         outcome (port_scan env rank self r) = Inl ValueError"
      if "threads self \<le> 0"
      using port_scan_no_workers [OF p that, of env rank] .
    from p pool none show ?thesis by blast
  qed
  from malformed accepted show ?thesis by blast
qed

theorem range_expression_checked_by_int_only_witness:
  "list_ex (\<lambda>p. py_int p = None) (py_split CHR ''-'' ''abc-100'') \<and>
   outcome (port_scan lab reversed (init ''10.0.0.5'' 10 2) ''abc-100'') = Inl ValueError \<and>
   probed (port_scan lab reversed (init ''10.0.0.5'' 10 2) ''abc-100'') = [] \<and>
   sockets (main lab any_path reversed ''0.10'' (cli ''lab.test'' ''abc-100'')) = [] \<and>
   py_split CHR ''-'' ''100-50'' = [''100'', ''50''] \<and>
   py_int ''100'' = Some 100 \<and> py_int ''50'' = Some 50 \<and>
   parse_range ''100-50'' = Inr (100, 50) \<and>
   probed (port_scan lab reversed (init ''10.0.0.5'' 10 2) ''100-50'') = [] \<and>
   outcome (port_scan lab reversed (init ''10.0.0.5'' 10 2) ''100-50'') =
     Inr (init ''10.0.0.5'' 10 2) \<and>
   probed (port_scan lab reversed (init ''10.0.0.5'' 0 2) ''100-50'') = [] \<and>
   outcome (port_scan lab reversed (init ''10.0.0.5'' 0 2) ''100-50'') = Inl ValueError"
proof -
  have bad: "list_ex (\<lambda>p. py_int p = None) (py_split CHR ''-'' ''abc-100'')" by code_simp
  have sp: "py_split CHR ''-'' ''100-50'' = [''100'', ''50'']" by code_simp
  have a: "py_int ''100'' = Some 100" by code_simp
  have b: "py_int ''50'' = Some 50" by code_simp
  have r: "arg_ports (cli ''lab.test'' ''abc-100'') = ''abc-100''" by (simp add: cli_def)
  have t: "0 < threads (init ''10.0.0.5'' 10 (2::int))" by (simp add: init_def)
  have z: "threads (init ''10.0.0.5'' 0 (2::int)) \<le> 0" by (simp add: init_def)
  note w1 = range_expression_checked_by_int_only [of "''abc-100''" lab reversed
      "init ''10.0.0.5'' 10 2" "cli ''lab.test'' ''abc-100''" any_path "''0.10''"]
  note w2 = range_expression_checked_by_int_only [of "''100-50''" lab reversed
      "init ''10.0.0.5'' 10 2" _ _ _ "''100''" "''50''" 100 50]
  note w3 = range_expression_checked_by_int_only [of "''100-50''" lab reversed
      "init ''10.0.0.5'' 0 2" _ _ _ "''100''" "''50''" 100 50]
  from bad r w1 have first:
    "outcome (port_scan lab reversed (init ''10.0.0.5'' 10 2) ''abc-100'') = Inl ValueError \<and>
     probed (port_scan lab reversed (init ''10.0.0.5'' 10 2) ''abc-100'') = [] \<and>
     sockets (main lab any_path reversed ''0.10'' (cli ''lab.test'' ''abc-100'')) = []"
    by blast
  from sp a b t w2 have second:
    "parse_range ''100-50'' = Inr (100, 50) \<and>
     probed (port_scan lab reversed (init ''10.0.0.5'' 10 2) ''100-50'') = [] \<and>
     outcome (port_scan lab reversed (init ''10.0.0.5'' 10 2) ''100-50'') =
       Inr (init ''10.0.0.5'' 10 2)"
    by simp
  from sp a b z w3 have third:
    "probed (port_scan lab reversed (init ''10.0.0.5'' 0 2) ''100-50'') = [] \<and>
     outcome (port_scan lab reversed (init ''10.0.0.5'' 0 2) ''100-50'') = Inl ValueError"
    by blast
  from bad sp a b first second third show ?thesis by blast
qed

text \<open>
  C2. When \<open>port_scan\<close> returns normally, the pairs it has added to \<open>open_ports\<close> are exactly
  the \<open>(port, service)\<close> pairs of the probed ports whose probe returned the status
  \<open>ouvert\<close>, each of them once; what the list held before the scan is kept in front. A probe
  whose status is \<open>ferme\<close> (written with an acute accent) or \<open>erreur: ...\<close> adds nothing.
\<close>

theorem open_ports_are_the_open_outcomes:
  assumes "outcome (port_scan env rank self port_range) = Inr after"
  shows "take (length (open_ports self)) (open_ports after) = open_ports self \<and>
         set (drop (length (open_ports self)) (open_ports after)) =
           {(port, service). port \<in> set (probed (port_scan env rank self port_range)) \<and>
                             scan_port env self port = (port, service, ouvert)} \<and>
         distinct (drop (length (open_ports self)) (open_ports after))"
proof -
  from assms obtain a b where p: "parse_range port_range = Inr (a, b)" and t: "0 < threads self"
    by (rule port_scan_completed)
  let ?found = "map (\<lambda>port. (port, Some (get_service_name env port)))
     (filter (\<lambda>port. connect_ex env (timeout self) (target self) port = Returned 0)
             (as_completed rank [a..b]))"
  from port_scan_runs [OF p t, of env rank] assms
  have probed: "probed (port_scan env rank self port_range) = [a..b]"
    and after: "open_ports after = open_ports self @ ?found"
    by auto
  have "set ?found = {(port, service). port \<in> set [a..b] \<and>
                        scan_port env self port = (port, service, ouvert)}"
    by (auto simp: set_as_completed scan_port_ouvert)
  moreover have "distinct ?found"
    by (simp add: distinct_map distinct_as_completed inj_on_def)
  ultimately show ?thesis
    by (simp add: after probed)
qed

theorem open_ports_are_the_open_outcomes_witness:
  "outcome (port_scan lab reversed (init ''10.0.0.5'' 10 2) ''20-25'') =
     Inr \<lparr>target = ''10.0.0.5'', threads = 10, timeout = 2,
          open_ports = [(22, Some ''SSH'')]\<rparr> \<and>
   set [(22, Some ''SSH'')] =
     {(port, service).
        port \<in> set (probed (port_scan lab reversed (init ''10.0.0.5'' 10 2) ''20-25'')) \<and>
        scan_port lab (init ''10.0.0.5'' 10 2) port = (port, service, ouvert)}"
proof -
  have run: "outcome (port_scan lab reversed (init ''10.0.0.5'' 10 2) ''20-25'') =
     Inr \<lparr>target = ''10.0.0.5'', threads = 10, timeout = 2,
          open_ports = [(22, Some ''SSH'')]\<rparr>"
    by code_simp
  have fresh: "open_ports (init ''10.0.0.5'' 10 (2::int)) = []"
    by (simp add: init_def)
  from open_ports_are_the_open_outcomes [OF run] fresh
  have "set [(22, Some ''SSH'')] =
     {(port, service).
        port \<in> set (probed (port_scan lab reversed (init ''10.0.0.5'' 10 2) ''20-25'')) \<and>
        scan_port lab (init ''10.0.0.5'' 10 2) port = (port, service, ouvert)}"
    by simp
  with run show ?thesis by (rule conjI)
qed

lemma not_open_not_listed:
  assumes "connect_ex env (timeout self) (target self) port \<noteq> Returned 0"
    and "open_ports self = []"
    and "outcome (port_scan env rank self port_range) = Inr after"
  shows "port \<notin> fst ` set (open_ports after)"
proof -
  from assms(3) obtain a b where p: "parse_range port_range = Inr (a, b)" and t: "0 < threads self"
    by (rule port_scan_completed)
  from port_scan_runs(2) [OF p t, of env rank] assms(3)
  have "open_ports after = open_ports self @
     map (\<lambda>port. (port, Some (get_service_name env port)))
       (filter (\<lambda>port. connect_ex env (timeout self) (target self) port = Returned 0)
               (as_completed rank [a..b]))"
    by auto
  with assms(1,2) show ?thesis by (auto simp: image_iff)
qed

text \<open>
  C5. A connection attempt that is refused or that times out makes \<open>connect_ex\<close> return a
  non-zero error indicator (on Linux 111 for a refusal, 11 for a timeout). For every port
  with such an attempt \<open>scan_port\<close> returns the status \<open>ferme\<close> (written with an acute accent) with no service, and a scan
  started with an empty result list never lists that port. An attempt that raises is turned
  into the status \<open>erreur: ...\<close> of that port, which is not listed either. No outcome of any
  probe makes the scan fail: whenever the range expression is well-formed and the thread
  count is positive, \<open>port_scan\<close> returns normally, for every network.
\<close>

theorem refused_or_timed_out_is_closed:
  "(connect_ex env (timeout self) (target self) port = Returned code \<and> code \<noteq> 0 \<longrightarrow>
      scan_port env self port = (port, None, ferme) \<and> ferme \<noteq> ouvert \<and>
      (open_ports self = [] \<and> outcome (port_scan env rank self port_range) = Inr after \<longrightarrow>
         port \<notin> fst ` set (open_ports after))) \<and>
   (connect_ex env (timeout self) (target self) port = Raised e \<longrightarrow>
      scan_port env self port = (port, None, erreur e) \<and> erreur e \<noteq> ouvert \<and>
      (open_ports self = [] \<and> outcome (port_scan env rank self port_range) = Inr after \<longrightarrow>
         port \<notin> fst ` set (open_ports after))) \<and>
   (parse_range port_range = Inr (a, b) \<and> 0 < threads self \<longrightarrow>
      (\<exists>result. outcome (port_scan env rank self port_range) = Inr result))"
proof -
  have closed: "scan_port env self port = (port, None, ferme)"
    if "connect_ex env (timeout self) (target self) port = Returned code" and "code \<noteq> 0"
    using that by (simp add: scan_port_def)
  have failed: "scan_port env self port = (port, None, erreur e)"
    if "connect_ex env (timeout self) (target self) port = Raised e"
    using that by (simp add: scan_port_def)
  have unlisted: "port \<notin> fst ` set (open_ports after)"
    if "connect_ex env (timeout self) (target self) port \<noteq> Returned 0"
      and "open_ports self = []" and "outcome (port_scan env rank self port_range) = Inr after"
    using that by (rule not_open_not_listed)
  have returns: "\<exists>result. outcome (port_scan env rank self port_range) = Inr result"
    if "parse_range port_range = Inr (a, b)" and "0 < threads self"
    using port_scan_runs(2) [OF that, of env rank] by blast
  have "connect_ex env (timeout self) (target self) port \<noteq> Returned 0"
    if "connect_ex env (timeout self) (target self) port = Returned code" and "code \<noteq> 0"
    using that by simp
  moreover have "connect_ex env (timeout self) (target self) port \<noteq> Returned 0"
    if "connect_ex env (timeout self) (target self) port = Raised e"
    using that by simp
  ultimately show ?thesis
    using closed failed unlisted returns ferme_not_ouvert erreur_not_ouvert by blast
qed

theorem refused_or_timed_out_is_closed_witness:
  "connect_ex lab 2 ''10.0.0.5'' 25 = Returned 11 \<and>
   scan_port lab (init ''10.0.0.5'' 10 2) 25 = (25, None, ferme) \<and>
   connect_ex lab 2 ''10.0.0.5'' 70000 = Raised ''connect_ex(): port must be 0-65535.'' \<and>
   scan_port lab (init ''10.0.0.5'' 10 2) 70000 =
     (70000, None, erreur ''connect_ex(): port must be 0-65535.'') \<and>
   parse_range ''20-25'' = Inr (20, 25) \<and>
   outcome (port_scan lab reversed (init ''10.0.0.5'' 10 2) ''20-25'') =
     Inr \<lparr>target = ''10.0.0.5'', threads = 10, timeout = 2,
          open_ports = [(22, Some ''SSH'')]\<rparr> \<and>
   25 \<notin> fst ` set [(22::int, Some ''SSH'')] \<and>
   70000 \<notin> fst ` set [(22::int, Some ''SSH'')] \<and>
   (\<exists>result. outcome (port_scan lab reversed (init ''10.0.0.5'' 10 2) ''20-25'') = Inr result)"
proof -
  let ?self = "init ''10.0.0.5'' 10 (2::int)"
  let ?after = "\<lparr>target = ''10.0.0.5'', threads = 10, timeout = 2::int,
                 open_ports = [(22, Some ''SSH'')]\<rparr>"
  have c: "connect_ex lab (timeout ?self) (target ?self) 25 = Returned 11"
    by (simp add: lab_def)
  have n: "(11::int) \<noteq> 0" by simp
  have f: "connect_ex lab (timeout ?self) (target ?self) 70000 =
     Raised ''connect_ex(): port must be 0-65535.''"
    by (simp add: lab_def)
  have fresh: "open_ports ?self = []" by (simp add: init_def)
  have p: "parse_range ''20-25'' = Inr (20, 25)" by code_simp
  have t: "0 < threads ?self" by (simp add: init_def)
  have run: "outcome (port_scan lab reversed ?self ''20-25'') = Inr ?after"
    by code_simp
  note w1 = refused_or_timed_out_is_closed [of lab ?self 25 11 reversed "''20-25''" ?after
      _ 20 25]
  note w2 = refused_or_timed_out_is_closed [of lab ?self 70000 _ reversed "''20-25''" ?after
      "''connect_ex(): port must be 0-65535.''"]
  from w1 c n fresh run have r1: "scan_port lab ?self 25 = (25, None, ferme)"
    and r2: "25 \<notin> fst ` set (open_ports ?after)"
    by blast+
  from w2 f fresh run have r3: "scan_port lab ?self 70000 =
      (70000, None, erreur ''connect_ex(): port must be 0-65535.'')"
    and r4: "70000 \<notin> fst ` set (open_ports ?after)"
    by blast+
  from w1 p t have r5: "\<exists>result. outcome (port_scan lab reversed ?self ''20-25'') = Inr result"
    by blast
  from r2 have r2': "25 \<notin> fst ` set [(22::int, Some ''SSH'')]" by simp
  from r4 have r4': "70000 \<notin> fst ` set [(22::int, Some ''SSH'')]" by simp
  from c f have c': "connect_ex lab 2 ''10.0.0.5'' 25 = Returned 11"
    and f': "connect_ex lab 2 ''10.0.0.5'' 70000 = Raised ''connect_ex(): port must be 0-65535.''"
    by (simp_all add: init_def)
  from c' r1 f' r3 p run r2' r4' r5 show ?thesis by blast
qed

section \<open>Runs of the whole program\<close>









text \<open>
  C3, as claimed, fails. When the lookup of \<open>nope.test\<close> raises \<open>socket.gaierror\<close>, the
  resolver does not fail with an error that carries the identifier: it returns normally,
  with the value \<open>None\<close>. When the lookup of a lone dot raises another exception, that
  exception leaves the resolver as it is, nothing is printed, and nothing names the
  identifier.
\<close>

theorem resolution_error_counterexample:
  "\<not> isdigit (replace_dot ''nope.test'') \<and> gethostbyname lab ''nope.test'' = Gaierror \<and>
   returned (resolve_target lab (init ''nope.test'' 10 2)) = Inr None \<and>
   \<not> isdigit (replace_dot ''.'') \<and>
   gethostbyname lab ''.'' = LookupRaised ''label empty or too long'' \<and>
   returned (resolve_target lab (init ''.'' 10 2)) = Inl (OtherError ''label empty or too long'') \<and>
   printed (resolve_target lab (init ''.'' 10 2)) = []"
  by (simp add: resolve_target_def init_def lab_def isdigit_def replace_dot_def isdigit_char_def
      decimal_def)

text \<open>
  C3, amended. Let the host identifier \<open>t\<close> fail the literal test, so that it is looked up.
  If the lookup fails, with \<open>socket.gaierror\<close> or with any other exception, the scan performs
  no port probe: \<open>main\<close> ends before any socket is opened, with nothing found and nothing
  written. If the lookup fails with \<open>socket.gaierror\<close>, the resolver raises no error: it
  prints the line \<open>[-] Impossible de resoudre t\<close> (with an acute accent), which names the
  identifier as it was given, and returns \<open>None\<close>, and \<open>main\<close> returns normally.
\<close>

theorem unresolved_host_aborts:
  assumes "\<not> isdigit (replace_dot t)" and "target self = t" and "arg_target args = t"
  shows "(gethostbyname env t = Gaierror \<or> gethostbyname env t = LookupRaised m \<longrightarrow>
            sockets (main env writable rank elapsed args) = [] \<and>
            found_ports (main env writable rank elapsed args) = [] \<and>
            written (main env writable rank elapsed args) = NotWritten) \<and>
         (gethostbyname env t = Gaierror \<longrightarrow>
            returned (resolve_target env self) = Inr None \<and>
            printed (resolve_target env self) =
              [''[-] Impossible de r'' @ [e_acute] @ ''soudre '' @ t] \<and>
            lookups (resolve_target env self) = [t] \<and>
            uncaught (main env writable rank elapsed args) = None)"
proof -
  let ?scanner = "init (arg_target args) (arg_threads args) (arg_timeout args)"
  have tg: "target ?scanner = t" using assms(3) by (simp add: init_def)
  have gai: "sockets (main env writable rank elapsed args) = [] \<and>
          found_ports (main env writable rank elapsed args) = [] \<and>
          written (main env writable rank elapsed args) = NotWritten \<and>
          uncaught (main env writable rank elapsed args) = None \<and>
          returned (resolve_target env self) = Inr None \<and>
          printed (resolve_target env self) =
            [''[-] Impossible de r'' @ [e_acute] @ ''soudre '' @ t] \<and>
          lookups (resolve_target env self) = [t]"
    if g: "gethostbyname env t = Gaierror"
  proof -
    have "returned (resolve_target env ?scanner) = Inr None"
      using assms(1) g tg by (simp add: resolve_target_def)
    from main_stops [OF this, of writable rank elapsed]
    have "sockets (main env writable rank elapsed args) = [] \<and>
          found_ports (main env writable rank elapsed args) = [] \<and>
          written (main env writable rank elapsed args) = NotWritten \<and>
          uncaught (main env writable rank elapsed args) = None"
      by simp
    moreover have "returned (resolve_target env self) = Inr None \<and>
          printed (resolve_target env self) =
            [''[-] Impossible de r'' @ [e_acute] @ ''soudre '' @ t] \<and>
          lookups (resolve_target env self) = [t]"
      using assms(1,2) g by (simp add: resolve_target_def)
    ultimately show ?thesis by simp
  qed
  have other: "sockets (main env writable rank elapsed args) = [] \<and>
          found_ports (main env writable rank elapsed args) = [] \<and>
          written (main env writable rank elapsed args) = NotWritten"
    if g: "gethostbyname env t = LookupRaised m"
  proof -
    have "returned (resolve_target env ?scanner) = Inl (OtherError m)"
      using assms(1) g tg by (simp add: resolve_target_def)
    from main_raises [OF this, of writable rank elapsed]
    show ?thesis by simp
  qed
  from gai other show ?thesis by blast
qed

theorem unresolved_host_aborts_witness:
  "\<not> isdigit (replace_dot ''nope.test'') \<and> gethostbyname lab ''nope.test'' = Gaierror \<and>
   returned (resolve_target lab (init ''nope.test'' 10 2)) = Inr None \<and>
   printed (resolve_target lab (init ''nope.test'' 10 2)) =
     [''[-] Impossible de r'' @ [e_acute] @ ''soudre nope.test''] \<and>
   sockets (main lab any_path in_order ''0.10'' (cli ''nope.test'' ''1-1024'')) = [] \<and>
   uncaught (main lab any_path in_order ''0.10'' (cli ''nope.test'' ''1-1024'')) = None \<and>
   \<not> isdigit (replace_dot ''.'') \<and>
   gethostbyname lab ''.'' = LookupRaised ''label empty or too long'' \<and>
   sockets (main lab any_path in_order ''0.10'' (cli ''.'' ''1-1024'')) = [] \<and>
   found_ports (main lab any_path in_order ''0.10'' (cli ''.'' ''1-1024'')) = [] \<and>
   written (main lab any_path in_order ''0.10'' (cli ''.'' ''1-1024'')) = NotWritten"
proof -
  have n1: "\<not> isdigit (replace_dot ''nope.test'')" by code_simp
  have g1: "gethostbyname lab ''nope.test'' = Gaierror" by (simp add: lab_def)
  have n2: "\<not> isdigit (replace_dot ''.'')" by code_simp
  have g2: "gethostbyname lab ''.'' = LookupRaised ''label empty or too long''"
    by (simp add: lab_def)
  have t1: "target (init ''nope.test'' 10 (2::int)) = ''nope.test''" by (simp add: init_def)
  have a1: "arg_target (cli ''nope.test'' ''1-1024'') = ''nope.test''" by (simp add: cli_def)
  have t2: "target (init ''.'' 10 (2::int)) = ''.''" by (simp add: init_def)
  have a2: "arg_target (cli ''.'' ''1-1024'') = ''.''" by (simp add: cli_def)
  note w1 = unresolved_host_aborts [OF n1 t1 a1, of lab _ any_path in_order "''0.10''"]
  note w2 = unresolved_host_aborts [OF n2 t2 a2, of lab "''label empty or too long''"
      any_path in_order "''0.10''"]
  from w1 g1 have r1: "returned (resolve_target lab (init ''nope.test'' 10 2)) = Inr None \<and>
     printed (resolve_target lab (init ''nope.test'' 10 2)) =
       [''[-] Impossible de r'' @ [e_acute] @ ''soudre nope.test''] \<and>
     sockets (main lab any_path in_order ''0.10'' (cli ''nope.test'' ''1-1024'')) = [] \<and>
     uncaught (main lab any_path in_order ''0.10'' (cli ''nope.test'' ''1-1024'')) = None"
    by simp
  from w2 g2 have r2: "sockets (main lab any_path in_order ''0.10'' (cli ''.'' ''1-1024'')) = [] \<and>
     found_ports (main lab any_path in_order ''0.10'' (cli ''.'' ''1-1024'')) = [] \<and>
     written (main lab any_path in_order ''0.10'' (cli ''.'' ''1-1024'')) = NotWritten"
    by blast
  from n1 g1 r1 n2 g2 r2 show ?thesis by blast
qed

section \<open>The service classifier\<close>

text \<open>
  C4, as claimed, fails in one point: for a port that neither the service database nor the
  static table knows, the label returned is \<open>Inconnu\<close>, not \<open>Unknown\<close>.
\<close>

theorem unknown_label_counterexample:
  "getservbyport offline 8080 = None \<and> map_of common_services 8080 = None \<and>
   get_service_name offline 8080 = ''Inconnu'' \<and> get_service_name offline 8080 \<noteq> ''Unknown''"
  by (simp add: get_service_name_def offline_def common_services_def)

text \<open>
  C4, amended. For every port number \<open>get_service_name\<close> returns a label: the name given
  by the service database when the lookup succeeds; when it fails, the label of the static
  table for each of its 14 ports, and the label \<open>Inconnu\<close> for every other port.
\<close>

theorem service_label_of_every_port:
  "(getservbyport env port = Some service \<longrightarrow> get_service_name env port = service) \<and>
   (getservbyport env port = None \<longrightarrow>
      get_service_name env port =
        (if port = 21 then ''FTP'' else if port = 22 then ''SSH''
         else if port = 23 then ''Telnet'' else if port = 25 then ''SMTP''
         else if port = 53 then ''DNS'' else if port = 80 then ''HTTP''
         else if port = 110 then ''POP3'' else if port = 143 then ''IMAP''
         else if port = 443 then ''HTTPS'' else if port = 993 then ''IMAPS''
         else if port = 995 then ''POP3S'' else if port = 3306 then ''MySQL''
         else if port = 5432 then ''PostgreSQL'' else if port = 3389 then ''RDP''
         else ''Inconnu''))"
  by (simp add: get_service_name_def common_services_def)

theorem service_label_of_every_port_witness:
  "getservbyport lab 80 = Some ''http'' \<and> get_service_name lab 80 = ''http'' \<and>
   getservbyport offline 80 = None \<and> get_service_name offline 80 = ''HTTP'' \<and>
   getservbyport offline 3389 = None \<and> get_service_name offline 3389 = ''RDP'' \<and>
   getservbyport offline 8080 = None \<and> get_service_name offline 8080 = ''Inconnu''"
proof -
  have a: "getservbyport lab 80 = Some ''http''" by (simp add: lab_def)
  have b: "getservbyport offline 80 = None" by (simp add: offline_def)
  have c: "getservbyport offline 3389 = None" by (simp add: offline_def)
  have d: "getservbyport offline 8080 = None" by (simp add: offline_def)
  from a service_label_of_every_port [of lab 80 "''http''"]
  have a': "get_service_name lab 80 = ''http''" by blast
  from b service_label_of_every_port [of offline 80]
  have b': "get_service_name offline 80 = ''HTTP''" by simp
  from c service_label_of_every_port [of offline 3389]
  have c': "get_service_name offline 3389 = ''RDP''" by simp
  from d service_label_of_every_port [of offline 8080]
  have d': "get_service_name offline 8080 = ''Inconnu''" by simp
  from a a' b b' c c' d d' show ?thesis by blast
qed

section \<open>The CSV file\<close>

















end
